theory Spec2Isabelle
  imports Complex_Main
begin

section \<open>Evaluation engine (code\_for\_dead\_trees\_detection.py, lines 112--185)\<close>

text \<open>
  The evaluation part of the script joins the detected polygons with the ground-truth
  points in both directions, counts the joined rows whose \<open>Join_Count\<close> is not 0, and
  derives two precision/recall/F1 triples from the counts.

  Python's \<open>/\<close> on the integer counts is true division and yields a float. The model
  computes with exact rationals: rounding of the binary floating-point result is not
  modelled, the raising of \<open>ZeroDivisionError\<close> on a zero divisor is.
\<close>

datatype py_error = ZeroDivisionError

definition truediv :: "rat \<Rightarrow> rat \<Rightarrow> py_error + rat" where
  "truediv a b = (if b = 0 then Inl ZeroDivisionError else Inr (a / b))"

type_synonym metrics = "rat \<times> rat \<times> rat"

text \<open>
  Lines 162--169 (and again 176--182 with \<open>TP_2\<close> in place of \<open>TP\<close>):
  \<^verbatim>\<open>precision = TP / (TP + FP)\<close>,
  \<^verbatim>\<open>recall = TP / (TP + FN)\<close>,
  \<^verbatim>\<open>f1_score = 2 * (precision * recall) / (precision + recall)\<close>.
  The three divisions run in this order; the first one that raises ends the computation.
\<close>

definition computeMetrics :: "int \<Rightarrow> int \<Rightarrow> int \<Rightarrow> py_error + metrics" where
  "computeMetrics tp fp fn =
     (case truediv (of_int tp) (of_int (tp + fp)) of
        Inl e \<Rightarrow> Inl e
      | Inr precision \<Rightarrow>
     (case truediv (of_int tp) (of_int (tp + fn)) of
        Inl e \<Rightarrow> Inl e
      | Inr recall \<Rightarrow>
     (case truediv (2 * (precision * recall)) (precision + recall) of
        Inl e \<Rightarrow> Inl e
      | Inr f1_score \<Rightarrow> Inr (precision, recall, f1_score))))"

text \<open>
  A row of a joined feature class: the target feature it belongs to and its
  \<open>Join_Count\<close> attribute.
\<close>

record 'a row =
  target :: 'a
  Join_Count :: int

text \<open>
  Modelled from the spec: \<open>arcpy.analysis.SpatialJoin\<close> is a tool of the external
  geospatial engine, called at lines 120--128 with its default options. Following the
  spec, every feature of the target gets one row whose \<open>Join_Count\<close> is the number of
  join candidates that intersect it. The geometric test is the parameter \<open>intersects\<close>.
\<close>

definition spatialJoin :: "('a \<Rightarrow> 'b \<Rightarrow> bool) \<Rightarrow> 'a list \<Rightarrow> 'b list \<Rightarrow> 'a row list" where
  "spatialJoin intersects target_feature join_feature =
     map (\<lambda>t. \<lparr>target = t,
               Join_Count = int (length (filter (intersects t) join_feature))\<rparr>)
         target_feature"

text \<open>
  Lines 137 and 146: \<^verbatim>\<open>arcpy.Select_analysis(joined, selected, '"Join_Count" <> 0')\<close> keeps
  the rows that satisfy the where clause; \<open>GetCount\<close> returns the number of rows.
\<close>

definition Select_analysis :: "'a row list \<Rightarrow> 'a row list" where
  "Select_analysis joined = filter (\<lambda>r. Join_Count r \<noteq> 0) joined"

definition GetCount :: "'a list \<Rightarrow> int" where
  "GetCount rows = int (length rows)"

definition countMatched :: "'a row list \<Rightarrow> int \<times> int" where
  "countMatched joined = (GetCount (Select_analysis joined), GetCount joined)"

record counts =
  TP :: int
  FN :: int
  All_polygons :: int
  TP_2 :: int
  FP :: int
  All_points :: int

text \<open>Lines 140--152: the six counts of the script.\<close>

definition count_rows :: "'a row list \<Rightarrow> 'b row list \<Rightarrow> counts" where
  "count_rows polygons_to_points points_to_polygons =
     (let (tp, all_polygons) = countMatched polygons_to_points;
          fn = all_polygons - tp;
          (tp_2, all_points) = countMatched points_to_polygons;
          fp = all_points - tp_2
      in \<lparr>TP = tp, FN = fn, All_polygons = all_polygons,
          TP_2 = tp_2, FP = fp, All_points = all_points\<rparr>)"

text \<open>
  Lines 162--185: the first triple uses \<open>TP\<close>, the second \<open>TP_2\<close>; both share \<open>FP\<close> and
  \<open>FN\<close>. The script has no exception handler, so an error of the first triple ends
  the script before the second one is computed.
\<close>

definition report :: "counts \<Rightarrow> py_error + (metrics \<times> metrics)" where
  "report c =
     (case computeMetrics (TP c) (FP c) (FN c) of
        Inl e \<Rightarrow> Inl e
      | Inr m \<Rightarrow>
     (case computeMetrics (TP_2 c) (FP c) (FN c) of
        Inl e \<Rightarrow> Inl e
      | Inr m_2 \<Rightarrow> Inr (m, m_2)))"

text \<open>Lines 120--185 as one function of the two feature sets.\<close>

definition evaluation ::
  "('a \<Rightarrow> 'b \<Rightarrow> bool) \<Rightarrow> 'a list \<Rightarrow> 'b list \<Rightarrow> counts \<times> (py_error + (metrics \<times> metrics))" where
  "evaluation intersects polygons points =
     (let polygons_to_points = spatialJoin intersects polygons points;
          points_to_polygons = spatialJoin (\<lambda>p q. intersects q p) points polygons;
          c = count_rows polygons_to_points points_to_polygons
      in (c, report c))"


section \<open>Reclassification stage (enhanced\_toolbox.py, lines 233--243)\<close>






section \<open>Detection pipeline (enhanced\_toolbox.py, \<open>DetectDeadTrees.execute\<close>)\<close>

text \<open>
  The tool is a straight-line sequence of calls into the external geospatial engine.
  The model keeps what the claims are about: which datasets exist, which paths the
  tool tracks in \<open>intermediates\<close>, which messages it logs, which engine calls it
  attempts (identified by their source line), and whether it raises.

  Everything the external world decides is a field of \<open>env\<close>: whether the engine call
  at a source line raises, whether a deletion raises, the workspace type, the status of
  the Spatial Analyst extension, and the path functions of Python's \<open>os.path\<close>.
  \<open>arcpy.Exists\<close> is membership in the set of existing datasets. An engine call that
  succeeds creates its output dataset, one that raises creates nothing.
  The numeric thresholds (\<open>min_area\<close>, \<open>buffer_distance\<close>, \<open>min_buffer_area\<close>,
  \<open>blue_band_index\<close>) are only passed on to the engine and are left out.
  Message texts are shortened and written in ASCII.
\<close>

type_synonym path = string

datatype error = ExecuteError string | Exception string

datatype message = Message string | WarningMessage string | ErrorMessage string

record params =
  input_raster :: path
  mask_layer :: "string option"
  workspace :: path
  number_classes :: "int option"
  output_features :: path

record env =
  join :: "path \<Rightarrow> string \<Rightarrow> path"
  splitext :: "path \<Rightarrow> path"
  workspaceType :: string
  CheckExtension :: string
  CheckOutExtension :: "error option"
  fails :: "nat \<Rightarrow> error option"
  has_Shape_Area :: "path \<Rightarrow> bool"
  Delete_fails :: "path \<Rightarrow> bool"
  GetMessages :: string

record state =
  files :: "path set"
  intermediates :: "path list"
  messages :: "message list"
  trace :: "nat list"

subsection \<open>String helpers of Python\<close>

text \<open>
  A \<open>char\<close> stands for the Unicode code point of the same number, so a \<open>string\<close> is a
  Python \<open>str\<close> whose code points are below 256. \<open>lower\<close> is \<open>str.lower\<close> and
  \<open>isspace\<close> is the whitespace test of \<open>str.strip\<close> on these code points: the
  characters 9 to 13 and 28 to 32, the next-line character U+0085 and the no-break space
  U+00A0.
\<close>

definition lower :: "string \<Rightarrow> string" where
  "lower s =
     map (\<lambda>c. let n = (of_char c :: nat)
               in if (65 \<le> n \<and> n \<le> 90) \<or> (192 \<le> n \<and> n \<le> 222 \<and> n \<noteq> 215)
                  then char_of (n + 32) else c) s"

definition endswith :: "string \<Rightarrow> string \<Rightarrow> bool" where
  "endswith s suf = (length suf \<le> length s \<and> drop (length s - length suf) s = suf)"

definition isspace :: "char \<Rightarrow> bool" where
  "isspace c =
     (let n = (of_char c :: nat)
      in (9 \<le> n \<and> n \<le> 13) \<or> (28 \<le> n \<and> n \<le> 32) \<or> n = 133 \<or> n = 160)"

definition strip :: "string \<Rightarrow> string" where
  "strip s = rev (dropWhile isspace (rev (dropWhile isspace s)))"

subsection \<open>Temporary paths (lines 198--208)\<close>

definition tmp :: "env \<Rightarrow> path \<Rightarrow> string \<Rightarrow> path" where
  "tmp e ws name =
     (let base = join e ws name
      in if workspaceType e = ''FileSystem''
         then (if endswith (lower name) ''.shp'' then base else join e ws (name @ ''.tif''))
         else base)"

text \<open>Lines 287, 295, 301, 308, 319: \<^verbatim>\<open>os.path.splitext(_tmp(name))[0] + ".shp"\<close>.\<close>

definition shp :: "env \<Rightarrow> path \<Rightarrow> string \<Rightarrow> path" where
  "shp e ws name = splitext e (tmp e ws name) @ ''.shp''"

subsection \<open>Statements of the \<open>try\<close> body\<close>

text \<open>
  \<^item> \<open>AddMessage\<close>, \<open>AddWarningMessage\<close>: a call of \<open>messages\<close>;
  \<^item> \<open>Tool n outs\<close>: the engine call at source line \<open>n\<close>, which creates the datasets
    \<open>outs\<close> when it succeeds and raises the error \<open>fails e n\<close> otherwise;
  \<^item> \<open>Append ps\<close>: \<open>intermediates.append\<close> or \<open>intermediates.extend\<close>;
  \<^item> \<open>TryExcept n m w\<close>: lines 247--254, the call at line \<open>n\<close> inside
    \<^verbatim>\<open>try ... except Exception\<close>, whose handler makes the call at line \<open>m\<close> and then
    logs the warning \<open>w\<close>.
\<close>

datatype stmt =
    AddMessage string
  | AddWarningMessage string
  | Tool nat "path list"
  | Append "path list"
  | TryExcept nat nat string

fun exec_stmt :: "env \<Rightarrow> stmt \<Rightarrow> state \<Rightarrow> state \<times> error option" where
  "exec_stmt e (AddMessage m) s = (s\<lparr>messages := messages s @ [Message m]\<rparr>, None)"
| "exec_stmt e (AddWarningMessage m) s =
     (s\<lparr>messages := messages s @ [WarningMessage m]\<rparr>, None)"
| "exec_stmt e (Tool n outs) s =
     (case fails e n of
        Some err \<Rightarrow> (s\<lparr>trace := trace s @ [n]\<rparr>, Some err)
      | None \<Rightarrow> (s\<lparr>trace := trace s @ [n], files := files s \<union> set outs\<rparr>, None))"
| "exec_stmt e (Append ps) s = (s\<lparr>intermediates := intermediates s @ ps\<rparr>, None)"
| "exec_stmt e (TryExcept n m w) s =
     (case fails e n of
        None \<Rightarrow> (s\<lparr>trace := trace s @ [n]\<rparr>, None)
      | Some _ \<Rightarrow>
          (case fails e m of
             Some err \<Rightarrow> (s\<lparr>trace := trace s @ [n, m]\<rparr>, Some err)
           | None \<Rightarrow>
               (s\<lparr>trace := trace s @ [n, m],
                  messages := messages s @ [WarningMessage w]\<rparr>, None)))"

text \<open>Statements run in order; the first one that raises ends the body.\<close>

fun exec_stmts :: "env \<Rightarrow> stmt list \<Rightarrow> state \<Rightarrow> state \<times> error option" where
  "exec_stmts e [] s = (s, None)"
| "exec_stmts e (c # cs) s =
     (case exec_stmt e c s of
        (s', Some err) \<Rightarrow> (s', Some err)
      | (s', None) \<Rightarrow> exec_stmts e cs s')"


subsection \<open>The \<open>try\<close> body (lines 210--331)\<close>

text \<open>Line 212: \<^verbatim>\<open>if mask_layer and mask_layer.strip()\<close>.\<close>

definition mask_given :: "params \<Rightarrow> bool" where
  "mask_given p =
     (case mask_layer p of None \<Rightarrow> False | Some m \<Rightarrow> m \<noteq> [] \<and> strip m \<noteq> [])"

text \<open>
  Lines 291--292 and 312--313: \<open>ListFields\<close>, then \<open>AddField\<close> when the area field is
  not there yet.
\<close>

definition ensure_Shape_Area :: "env \<Rightarrow> nat \<Rightarrow> nat \<Rightarrow> path \<Rightarrow> stmt list" where
  "ensure_Shape_Area e l_list l_add x =
     Tool l_list [] # (if has_Shape_Area e x then [] else [Tool l_add []])"

definition step_1 :: "env \<Rightarrow> params \<Rightarrow> stmt list" where
  "step_1 e p =
     AddMessage ''Step 1/10: Preparing raster'' #
     (if mask_given p
      then (let aerial_image = tmp e (workspace p) ''aerial_image''
            in [AddMessage ''Forest mask provided'',
                Tool 215 [aerial_image],
                Append [aerial_image]])
      else [AddWarningMessage ''No forest mask provided''])"

definition steps_2_to_7 :: "env \<Rightarrow> params \<Rightarrow> stmt list" where
  "steps_2_to_7 e p =
     (let ws = workspace p;
          classified_raster = tmp e ws ''classified'';
          dead_trees_raster = tmp e ws ''dead_trees'';
          blue_mask = tmp e ws ''blue_mask'';
          extracted_raster = tmp e ws ''extracted_raster_one_band'';
          filtered_raster = tmp e ws ''filtered'';
          expanded_raster = tmp e ws ''expanded'';
          shrinked_raster = tmp e ws ''shrinked''
      in [AddMessage ''Step 2/10: Creating unsupervised classes with IsoCluster'',
          Tool 225 [classified_raster],
          Append [classified_raster],
          AddMessage ''Step 3/10: Skipping MLClassify'',
          AddMessage ''Step 4/10: Reclassifying to isolate likely dead trees'',
          Tool 242 [dead_trees_raster],
          Append [dead_trees_raster],
          AddMessage ''Step 5/10: Blue band check'',
          TryExcept 249 252 ''Could not read a specific band path'',
          Tool 258 [blue_mask],
          Append [blue_mask],
          Tool 262 [extracted_raster],
          Append [extracted_raster],
          AddMessage ''Step 6/10: Applying majority filter'',
          Tool 268 [filtered_raster],
          Append [filtered_raster],
          AddMessage ''Step 7/10: Expanding and shrinking'',
          Tool 274 [expanded_raster],
          Append [expanded_raster],
          Tool 278 [shrinked_raster],
          Append [shrinked_raster]])"

definition steps_8_to_10 :: "env \<Rightarrow> params \<Rightarrow> stmt list" where
  "steps_8_to_10 e p =
     (let ws = workspace p;
          grouped_raster = tmp e ws ''region_group'';
          dead_trees_vector = shp e ws ''dead_trees_vector'';
          dead_trees_selected = shp e ws ''dead_trees_selected'';
          buffered_trees = shp e ws ''buffered_trees'';
          dissolved_buffer = shp e ws ''dissolved_buffer'';
          trees_buffer_processed = shp e ws ''trees_buffer_processed''
      in [AddMessage ''Step 8/10: Converting raster to polygons and filtering by area'',
          Tool 284 [grouped_raster],
          Append [grouped_raster],
          Tool 288 [dead_trees_vector]] @
         ensure_Shape_Area e 291 292 dead_trees_vector @
         [Tool 293 [],
          Tool 296 [dead_trees_selected],
          Append [dead_trees_vector, dead_trees_selected],
          AddMessage ''Step 9/10: Buffering and dissolving'',
          Tool 302 [buffered_trees],
          Append [buffered_trees],
          Tool 309 [dissolved_buffer]] @
         ensure_Shape_Area e 312 313 dissolved_buffer @
         [Tool 314 [],
          Append [dissolved_buffer],
          AddMessage ''Step 10/10: Final selection and saving output'',
          Tool 320 [trees_buffer_processed],
          Tool 323 [output_features p],
          AddMessage ''Done!'',
          AddMessage ''Suggestions:'',
          AddMessage ''Set the Blue Band Index to the blue band of the sensor'',
          AddMessage ''A forest polygon mask can improve precision and speed'',
          AddMessage ''Class 10 is assumed as the dead-tree class'',
          AddMessage ''Consider tuning the blue threshold (currently >= 150)''])"

definition body :: "env \<Rightarrow> params \<Rightarrow> stmt list" where
  "body e p = step_1 e p @ steps_2_to_7 e p @ steps_8_to_10 e p"

subsection \<open>Handlers and cleanup (lines 333--350)\<close>

text \<open>
  Both handlers log an error message and re-raise: the error of the body stays the
  result of the run.
\<close>

definition handlers :: "env \<Rightarrow> error option \<Rightarrow> state \<Rightarrow> state" where
  "handlers e r s =
     (case r of
        None \<Rightarrow> s
      | Some (ExecuteError m) \<Rightarrow> s\<lparr>messages := messages s @ [ErrorMessage (GetMessages e)]\<rparr>
      | Some (Exception m) \<Rightarrow>
          s\<lparr>messages := messages s @ [ErrorMessage (''Unexpected error: '' @ m)]\<rparr>)"

text \<open>
  Lines 341--346: for each path of \<open>set(intermediates)\<close>, delete it when it exists; an
  exception of the deletion is caught and dropped.
\<close>

definition delete_path :: "env \<Rightarrow> path \<Rightarrow> path set \<Rightarrow> path set" where
  "delete_path e x fs = (if x \<in> fs \<and> \<not> Delete_fails e x then fs - {x} else fs)"

definition cleanup :: "env \<Rightarrow> state \<Rightarrow> state" where
  "cleanup e s = s\<lparr>files := fold (delete_path e) (remdups (intermediates s)) (files s)\<rparr>"

subsection \<open>\<open>execute\<close> (lines 163--350)\<close>

text \<open>
  The validation of lines 183--194 raises before the \<open>try\<close> statement is entered: no
  handler and no cleanup runs for these errors. The result is the final state and the
  exception that leaves \<open>execute\<close>, if any.
\<close>

definition initial :: "path set \<Rightarrow> state" where
  "initial fs = \<lparr>files = fs, intermediates = [], messages = [], trace = []\<rparr>"

definition mask_missing :: "params \<Rightarrow> path set \<Rightarrow> bool" where
  "mask_missing p fs =
     (case mask_layer p of None \<Rightarrow> False | Some m \<Rightarrow> m \<noteq> [] \<and> m \<notin> fs)"

definition validate :: "env \<Rightarrow> params \<Rightarrow> path set \<Rightarrow> error option" where
  "validate e p fs =
     (if input_raster p \<notin> fs then Some (ExecuteError ''Input raster does not exist.'')
      else if mask_missing p fs
        then Some (ExecuteError ''Forest mask layer path is invalid or not found.'')
      else if workspace p \<notin> fs then Some (ExecuteError ''Workspace does not exist.'')
      else if CheckExtension e \<noteq> ''Available''
        then Some (ExecuteError ''Spatial Analyst extension is not available.'')
      else CheckOutExtension e)"

definition execute :: "env \<Rightarrow> params \<Rightarrow> path set \<Rightarrow> state \<times> error option" where
  "execute e p fs =
     (case validate e p fs of
        Some err \<Rightarrow> (initial fs, Some err)
      | None \<Rightarrow>
          (case exec_stmts e (body e p) (initial fs) of
             (s, r) \<Rightarrow> (cleanup e (handlers e r s), r)))"

text \<open>The paths that the body passes to \<open>intermediates.append\<close> or \<open>extend\<close>, in order.\<close>

fun appended :: "stmt list \<Rightarrow> path list" where
  "appended [] = []"
| "appended (Append ps # cs) = ps @ appended cs"
| "appended (c # cs) = appended cs"

subsection \<open>A concrete environment\<close>

text \<open>
  For the concrete runs below: a file-system workspace whose path ends in a separator,
  so that \<open>os.path.join\<close> is concatenation; \<open>os.path.splitext\<close> cuts the extension of
  the last path component; the extension is available and no engine call raises.
\<close>

definition is_sep :: "char \<Rightarrow> bool" where
  "is_sep c = (c = CHR ''/'' \<or> c = CHR 0x5C)"

definition splitext_root :: "path \<Rightarrow> path" where
  "splitext_root x =
     (let r = rev x;
          ext = takeWhile (\<lambda>c. c \<noteq> CHR ''.'') r;
          rest = drop (Suc (length ext)) r;
          name = takeWhile (\<lambda>c. \<not> is_sep c) rest
      in if length ext < length r \<and> filter is_sep ext = []
            \<and> filter (\<lambda>c. c \<noteq> CHR ''.'') name \<noteq> []
         then rev rest else x)"

definition quiet_env :: env where
  "quiet_env =
     \<lparr>join = (\<lambda>a b. a @ b), splitext = splitext_root, workspaceType = ''FileSystem'',
      CheckExtension = ''Available'', CheckOutExtension = None,
      fails = (\<lambda>n. None), has_Shape_Area = (\<lambda>x. False),
      Delete_fails = (\<lambda>x. False), GetMessages = []\<rparr>"

definition no_mask_params :: params where
  "no_mask_params =
     \<lparr>input_raster = ''C:/data/tile.tif'', mask_layer = None, workspace = ''C:/ws/'',
      number_classes = None, output_features = ''C:/out/dead_trees.shp''\<rparr>"

section \<open>Functions used in the proofs\<close>

text \<open>
  Read off a statement list: the engine calls whose exception an inner handler catches,
  the datasets its engine calls create, the engine calls a run without fatal error
  attempts, and whether a run of the list has no fatal error.
\<close>

fun caught :: "stmt list \<Rightarrow> nat set" where
  "caught [] = {}"
| "caught (TryExcept n m w # cs) = insert n (caught cs)"
| "caught (c # cs) = caught cs"

fun created :: "stmt list \<Rightarrow> path list" where
  "created [] = []"
| "created (Tool n outs # cs) = outs @ created cs"
| "created (c # cs) = created cs"

fun sites :: "env \<Rightarrow> stmt list \<Rightarrow> nat list" where
  "sites e [] = []"
| "sites e (Tool n outs # cs) = n # sites e cs"
| "sites e (TryExcept n m w # cs) =
     (if fails e n = None then [n] else [n, m]) @ sites e cs"
| "sites e (c # cs) = sites e cs"

fun run_ok :: "env \<Rightarrow> stmt list \<Rightarrow> bool" where
  "run_ok e [] = True"
| "run_ok e (Tool n outs # cs) = (fails e n = None \<and> run_ok e cs)"
| "run_ok e (TryExcept n m w # cs) = ((fails e n = None \<or> fails e m = None) \<and> run_ok e cs)"
| "run_ok e (c # cs) = run_ok e cs"

text \<open>Every listed engine call succeeded or is one whose exception is caught.\<close>

definition clean :: "env \<Rightarrow> nat set \<Rightarrow> nat list \<Rightarrow> bool" where
  "clean e C ns = (\<forall>n\<in>set ns. fails e n = None \<or> n \<in> C)"

subsection \<open>Concrete runs\<close>

text \<open>
  The workspace before a run holds the input raster and the workspace folder.
  \<open>locked_env\<close> is \<open>quiet_env\<close> where deleting the classified raster raises;
  \<open>band_env\<close> is \<open>quiet_env\<close> where opening the band path at line 249 raises;
  \<open>fail_env\<close> is \<open>quiet_env\<close> where \<open>Reclassify\<close> at line 242 raises an
  \<open>ExecuteError\<close>; \<open>calc_env\<close> is \<open>quiet_env\<close> where \<open>CalculateField\<close> at line 293
  raises an \<open>ExecuteError\<close>; \<open>own_temp_params\<close> names as input raster a file of the
  workspace that carries the name of a temporary raster of the tool.
\<close>

definition workspace_before :: "path set" where
  "workspace_before = {''C:/data/tile.tif'', ''C:/ws/''}"

definition locked_env :: env where
  "locked_env = quiet_env\<lparr>Delete_fails := (\<lambda>x. x = ''C:/ws/classified.tif'')\<rparr>"

definition band_env :: env where
  "band_env =
     quiet_env\<lparr>fails := (\<lambda>n. if n = 249 then Some (Exception ''no band'') else None)\<rparr>"

definition fail_env :: env where
  "fail_env =
     quiet_env\<lparr>fails := (\<lambda>n. if n = 242 then Some (ExecuteError ''ERROR 010067'') else None),
               GetMessages := ''ERROR 010067: Error in executing grid expression.''\<rparr>"

definition calc_env :: env where
  "calc_env =
     quiet_env\<lparr>fails := (\<lambda>n. if n = 293 then Some (ExecuteError ''ERROR 000539'') else None)\<rparr>"

definition own_temp_params :: params where
  "own_temp_params = no_mask_params\<lparr>input_raster := ''C:/ws/dead_trees.tif''\<rparr>"

definition own_temp_before :: "path set" where
  "own_temp_before = {''C:/ws/dead_trees.tif'', ''C:/ws/''}"

section \<open>Properties of the evaluation engine\<close>

text \<open>
  Claim C1. For non-negative counts with non-zero denominators the triple is
  \<open>precision = TP / (TP + FP)\<close>, \<open>recall = TP / (TP + FN)\<close> and
  \<open>f1 = 2 * precision * recall / (precision + recall)\<close>. The divisions are those of the
  rationals (see the remark on floats above).
\<close>

theorem computeMetrics_formulas:
  assumes "0 \<le> tp" and "0 \<le> fp" and "0 \<le> fn"
    and "tp + fp \<noteq> 0" and "tp + fn \<noteq> 0"
    and "precision = of_int tp / of_int (tp + fp)"
    and "recall = of_int tp / of_int (tp + fn)"
    and "precision + recall \<noteq> 0"
  shows "computeMetrics tp fp fn =
           Inr (precision, recall, 2 * precision * recall / (precision + recall))"
proof -
  have p: "truediv (of_int tp) (of_int (tp + fp)) = Inr precision"
    using assms(4,6) by (simp add: truediv_def)
  have r: "truediv (of_int tp) (of_int (tp + fn)) = Inr recall"
    using assms(5,7) by (simp add: truediv_def)
  have f: "truediv (2 * (precision * recall)) (precision + recall)
             = Inr (2 * precision * recall / (precision + recall))"
    using assms(8) by (simp add: truediv_def)
  show ?thesis
    unfolding computeMetrics_def p r by (simp add: f del: of_int_add)
qed

text \<open>
  Claim C1 at \<open>TP = 8\<close>, \<open>FP = 2\<close>, \<open>FN = 1\<close>: precision is \<open>4/5 = 0.80\<close>, recall is
  \<open>8/9\<close>, within a thousandth of 0.888, and F1 is \<open>16/19\<close>, within a thousandth of
  0.842.
\<close>

theorem computeMetrics_formulas_witness:
  "(0::int) \<le> 8 \<and> (0::int) \<le> 2 \<and> (0::int) \<le> 1 \<and> (8::int) + 2 \<noteq> 0 \<and> (8::int) + 1 \<noteq> 0
   \<and> (4/5 :: rat) + 8/9 \<noteq> 0
   \<and> computeMetrics 8 2 1 = Inr (4/5, 8/9, 16/19)
   \<and> (4/5 :: rat) = 80/100
   \<and> \<bar>(8/9 :: rat) - 888/1000\<bar> < 1/1000
   \<and> \<bar>(16/19 :: rat) - 842/1000\<bar> < 1/1000"
  using computeMetrics_formulas [of 8 2 1 "4/5" "8/9"] by simp

text \<open>
  Claim C2. The computation raises \<open>ZeroDivisionError\<close> exactly when one of the three
  denominators \<open>TP + FP\<close>, \<open>TP + FN\<close>, \<open>precision + recall\<close> is zero (the third one
  exists only when the first two divisions succeeded). Nothing catches the error: the
  script's result is the error as soon as one of its two triples raises.
\<close>

theorem computeMetrics_ZeroDivisionError:
  "(computeMetrics tp fp fn = Inl ZeroDivisionError \<longleftrightarrow>
      tp + fp = 0 \<or> tp + fn = 0 \<or>
      (tp + fp \<noteq> 0 \<and> tp + fn \<noteq> 0 \<and>
       (of_int tp / of_int (tp + fp) + of_int tp / of_int (tp + fn) :: rat) = 0))
   \<and> (report c = Inl ZeroDivisionError \<longleftrightarrow>
        computeMetrics (TP c) (FP c) (FN c) = Inl ZeroDivisionError \<or>
        computeMetrics (TP_2 c) (FP c) (FN c) = Inl ZeroDivisionError)"
proof
  show "computeMetrics tp fp fn = Inl ZeroDivisionError \<longleftrightarrow>
      tp + fp = 0 \<or> tp + fn = 0 \<or>
      (tp + fp \<noteq> 0 \<and> tp + fn \<noteq> 0 \<and>
       (of_int tp / of_int (tp + fp) + of_int tp / of_int (tp + fn) :: rat) = 0)"
    by (auto simp add: computeMetrics_def truediv_def)
next
  show "report c = Inl ZeroDivisionError \<longleftrightarrow>
        computeMetrics (TP c) (FP c) (FN c) = Inl ZeroDivisionError \<or>
        computeMetrics (TP_2 c) (FP c) (FN c) = Inl ZeroDivisionError"
    by (cases "computeMetrics (TP c) (FP c) (FN c)"; cases "computeMetrics (TP_2 c) (FP c) (FN c)")
       (auto simp add: report_def intro: py_error.exhaust)
qed

text \<open>
  Claim C2 at \<open>TP = 0\<close>, \<open>FP = 0\<close> (precision undefined), at \<open>TP = 0\<close>, \<open>FP = 4\<close>
  (precision and recall are both 0, so the F1 division raises), and for the script.
\<close>

theorem computeMetrics_ZeroDivisionError_witness:
  "computeMetrics 0 0 3 = Inl ZeroDivisionError
   \<and> computeMetrics 0 4 3 = Inl ZeroDivisionError
   \<and> report \<lparr>TP = 0, FN = 3, All_polygons = 3, TP_2 = 2, FP = 0, All_points = 2\<rparr>
       = Inl ZeroDivisionError"
  using computeMetrics_ZeroDivisionError [of 0 0 3 "\<lparr>TP = 0, FN = 3, All_polygons = 3, TP_2 = 2, FP = 0, All_points = 2\<rparr>"]
    computeMetrics_ZeroDivisionError [of 0 4 3 undefined]
  by simp

text \<open>
  For counts, which are never negative, the three conditions come to one: the computation
  raises exactly when there is no true positive.
\<close>

lemma computeMetrics_nonneg_error:
  assumes "0 \<le> tp" "0 \<le> fp" "0 \<le> fn"
  shows "computeMetrics tp fp fn = Inl ZeroDivisionError \<longleftrightarrow> tp = 0"
proof (cases "tp = 0")
  case True
  then show ?thesis by (simp add: computeMetrics_def truediv_def)
next
  case False
  with assms have pos: "0 < tp" by simp
  have a: "(0::rat) < of_int tp / of_int (tp + fp)"
    using pos assms by (simp del: of_int_add)
  have b: "(0::rat) < of_int tp / of_int (tp + fn)"
    using pos assms by (simp del: of_int_add)
  have "(of_int tp / of_int (tp + fp) + of_int tp / of_int (tp + fn) :: rat) \<noteq> 0"
    using a b by linarith
  moreover have "tp + fp \<noteq> 0" "tp + fn \<noteq> 0" using pos assms by simp_all
  ultimately show ?thesis using False
    by (simp add: computeMetrics_def truediv_def del: of_int_add)
qed

text \<open>
  The rows that \<open>Select_analysis\<close> keeps from a spatial join are the rows of the target
  features with at least one intersecting join candidate.
\<close>

lemma matched_rows:
  "Select_analysis (spatialJoin I A B) =
     spatialJoin I (filter (\<lambda>t. \<exists>b\<in>set B. I t b) A) B"
  by (simp add: Select_analysis_def spatialJoin_def filter_map comp_def filter_empty_conv)

text \<open>
  Claim C6. \<open>countMatched\<close> returns the number of rows whose \<open>Join_Count\<close> is not 0 and
  the number of rows, and the first never exceeds the second. The counts of the script are
  these pairs: \<open>TP\<close> and \<open>All_polygons\<close> are matched and total of the polygon join,
  \<open>TP_2\<close> and \<open>All_points\<close> those of the point join, \<open>FN\<close> and \<open>FP\<close> are total minus
  matched; so \<open>FN = All_polygons - TP\<close> and \<open>FP = All_points - TP_2\<close> are never
  negative.
\<close>

theorem countMatched_le_total:
  "countMatched joined =
     (int (length (filter (\<lambda>r. Join_Count r \<noteq> 0) joined)), int (length joined))
   \<and> fst (countMatched joined) \<le> snd (countMatched joined)
   \<and> (TP (count_rows polygons_to_points points_to_polygons),
        All_polygons (count_rows polygons_to_points points_to_polygons))
       = countMatched polygons_to_points
   \<and> (TP_2 (count_rows polygons_to_points points_to_polygons),
        All_points (count_rows polygons_to_points points_to_polygons))
       = countMatched points_to_polygons
   \<and> FN (count_rows polygons_to_points points_to_polygons)
       = snd (countMatched polygons_to_points) - fst (countMatched polygons_to_points)
   \<and> FP (count_rows polygons_to_points points_to_polygons)
       = snd (countMatched points_to_polygons) - fst (countMatched points_to_polygons)
   \<and> FN (count_rows polygons_to_points points_to_polygons)
       = All_polygons (count_rows polygons_to_points points_to_polygons)
         - TP (count_rows polygons_to_points points_to_polygons)
   \<and> 0 \<le> FN (count_rows polygons_to_points points_to_polygons)
   \<and> FP (count_rows polygons_to_points points_to_polygons)
       = All_points (count_rows polygons_to_points points_to_polygons)
         - TP_2 (count_rows polygons_to_points points_to_polygons)
   \<and> 0 \<le> FP (count_rows polygons_to_points points_to_polygons)"
  by (simp add: countMatched_def GetCount_def Select_analysis_def count_rows_def)

text \<open>
  Claim C7. \<open>FN\<close> is the number of detected polygons minus \<open>TP\<close>, where \<open>TP\<close> counts
  the polygons with at least one intersecting ground-truth point; \<open>FP\<close> is
  \<open>All_points - TP_2\<close>, computed from the inverse join, and this is the number of
  ground-truth points that no detected polygon intersects.
\<close>

theorem FN_FP_derivation:
  "FN (fst (evaluation intersects polygons points))
     = int (length polygons) - TP (fst (evaluation intersects polygons points))
   \<and> TP (fst (evaluation intersects polygons points))
     = int (length (filter (\<lambda>q. \<exists>p\<in>set points. intersects q p) polygons))
   \<and> FP (fst (evaluation intersects polygons points))
     = All_points (fst (evaluation intersects polygons points))
       - TP_2 (fst (evaluation intersects polygons points))
   \<and> All_points (fst (evaluation intersects polygons points)) = int (length points)
   \<and> FP (fst (evaluation intersects polygons points))
     = int (length (filter (\<lambda>p. \<not> (\<exists>q\<in>set polygons. intersects q p)) points))"
proof -
  have c: "int (length xs) - int (length (filter P xs)) = int (length (filter (\<lambda>x. \<not> P x) xs))"
    for P :: "'c \<Rightarrow> bool" and xs
    using sum_length_filter_compl [of P xs] by simp
  have d: "FP (fst (evaluation intersects polygons points))
     = int (length points)
       - int (length (filter (\<lambda>p. \<exists>q\<in>set polygons. intersects q p) points))"
    by (simp add: evaluation_def count_rows_def countMatched_def GetCount_def matched_rows Let_def)
       (simp add: spatialJoin_def)
  have "FP (fst (evaluation intersects polygons points))
     = int (length (filter (\<lambda>p. \<not> (\<exists>q\<in>set polygons. intersects q p)) points))"
    unfolding d by (rule c)
  moreover have "FN (fst (evaluation intersects polygons points))
     = int (length polygons) - TP (fst (evaluation intersects polygons points))
   \<and> TP (fst (evaluation intersects polygons points))
     = int (length (filter (\<lambda>q. \<exists>p\<in>set points. intersects q p) polygons))
   \<and> FP (fst (evaluation intersects polygons points))
     = All_points (fst (evaluation intersects polygons points))
       - TP_2 (fst (evaluation intersects polygons points))
   \<and> All_points (fst (evaluation intersects polygons points)) = int (length points)"
    by (simp add: evaluation_def count_rows_def countMatched_def GetCount_def matched_rows Let_def)
       (simp add: spatialJoin_def)
  ultimately show ?thesis by blast
qed

text \<open>
  Claim C7 on three polygons and three points, where polygon \<open>q\<close> contains point \<open>p\<close> when
  \<open>q = p\<close>: polygon 2 has no point and point 5 has no polygon.
\<close>

theorem FN_FP_derivation_witness:
  "FN (fst (evaluation (\<lambda>q p. q = p) [0::nat, 1, 2] [0::nat, 1, 5])) = 1
   \<and> TP (fst (evaluation (\<lambda>q p. q = p) [0::nat, 1, 2] [0::nat, 1, 5])) = 2
   \<and> FP (fst (evaluation (\<lambda>q p. q = p) [0::nat, 1, 2] [0::nat, 1, 5])) = 1"
  using FN_FP_derivation [of "\<lambda>q p. q = p" "[0::nat, 1, 2]" "[0::nat, 1, 5]"]
  by simp

text \<open>
  Claim C8. The spatial join has exactly one row per target feature, in the order of the
  target, and the row of a target feature carries the number of join candidates that
  intersect it (counted as positions of the candidate list, so 0 when there is none).
\<close>

theorem spatialJoin_cardinality:
  "length (spatialJoin intersects A B) = length A
   \<and> map target (spatialJoin intersects A B) = A
   \<and> (\<forall>i<length A.
        target (spatialJoin intersects A B ! i) = A ! i
        \<and> Join_Count (spatialJoin intersects A B ! i)
            = int (card {j. j < length B \<and> intersects (A ! i) (B ! j)}))"
  by (simp add: spatialJoin_def comp_def length_filter_conv_card)

text \<open>
  Claim C8 on three target features and three candidates: target 1 intersects two
  candidates, target 2 none, and there are three rows.
\<close>

theorem spatialJoin_cardinality_witness:
  "length (spatialJoin (\<lambda>q p. q = p) [0::nat, 1, 2] [0::nat, 1, 1]) = 3
   \<and> Join_Count (spatialJoin (\<lambda>q p. q = p) [0::nat, 1, 2] [0::nat, 1, 1] ! 1) = 2
   \<and> Join_Count (spatialJoin (\<lambda>q p. q = p) [0::nat, 1, 2] [0::nat, 1, 1] ! 2) = 0"
proof -
  have a: "{j. j < length [0::nat, 1, 1] \<and> [0::nat, 1, 2] ! 1 = [0::nat, 1, 1] ! j} = {1, 2}"
    by (auto simp add: nth_Cons' less_Suc_eq split: if_splits)
  have b: "{j. j < length [0::nat, 1, 1] \<and> [0::nat, 1, 2] ! 2 = [0::nat, 1, 1] ! j} = {}"
    by (auto simp add: nth_Cons' less_Suc_eq split: if_splits)
  note th = spatialJoin_cardinality [of "\<lambda>q p. q = p" "[0::nat, 1, 2]" "[0::nat, 1, 1]"]
  from th have q: "\<forall>i<length [0::nat, 1, 2].
      Join_Count (spatialJoin (\<lambda>q p. q = p) [0::nat, 1, 2] [0::nat, 1, 1] ! i)
        = int (card {j. j < length [0::nat, 1, 1] \<and> [0::nat, 1, 2] ! i = [0::nat, 1, 1] ! j})"
    by blast
  from th have l: "length (spatialJoin (\<lambda>q p. q = p) [0::nat, 1, 2] [0::nat, 1, 1]) = 3"
    by simp
  from q [rule_format, of 1] q [rule_format, of 2] a b l show ?thesis
    by simp
qed

text \<open>
  Claim C3, as amended. Three polygons, two points, two polygons holding one point each:
  the counts are \<open>TP = 2\<close>, \<open>FN = 1\<close>, \<open>All_polygons = 3\<close>, \<open>TP_2 = 2\<close>, \<open>FP = 0\<close>,
  \<open>All_points = 2\<close>. Both triples are precision 1, recall \<open>2/3\<close>, F1 \<open>4/5\<close>: the
  point-view triple divides by \<open>TP_2 + FN\<close> with the \<open>FN\<close> of the polygon view.
\<close>

theorem end_to_end_scenario:
  "evaluation (\<lambda>q p. q = p) [0::nat, 1, 2] [0::nat, 1]
     = (\<lparr>TP = 2, FN = 1, All_polygons = 3, TP_2 = 2, FP = 0, All_points = 2\<rparr>,
        Inr ((1, 2/3, 4/5), (1, 2/3, 4/5)))"
  by (simp add: evaluation_def count_rows_def countMatched_def GetCount_def
      Select_analysis_def spatialJoin_def report_def computeMetrics_def truediv_def)

text \<open>
  Claim C3 as stated expects recall 1 and F1 1 for the point view. With the counts of the
  scenario the script does not report that pair of triples.
\<close>

theorem end_to_end_scenario_counterexample:
  "fst (evaluation (\<lambda>q p. q = p) [0::nat, 1, 2] [0::nat, 1])
     = \<lparr>TP = 2, FN = 1, All_polygons = 3, TP_2 = 2, FP = 0, All_points = 2\<rparr>
   \<and> snd (evaluation (\<lambda>q p. q = p) [0::nat, 1, 2] [0::nat, 1])
     \<noteq> Inr ((1, 2/3, 4/5), (1, 1, 1))"
  by (simp add: evaluation_def count_rows_def countMatched_def GetCount_def
      Select_analysis_def spatialJoin_def report_def computeMetrics_def truediv_def)

section \<open>Properties of the reclassification stage\<close>






section \<open>Properties of the detection pipeline\<close>

subsection \<open>What a statement list does to the state\<close>

lemma exec_stmt_intermediates:
  "exec_stmt e c s = (s', r) \<Longrightarrow>
   set (intermediates s') \<subseteq> set (intermediates s) \<union> set (appended [c])"
  by (cases c) (auto split: option.splits)

lemma appended_Cons: "set (appended (c # cs)) = set (appended [c]) \<union> set (appended cs)"
  by (cases c) auto

lemma exec_stmts_intermediates:
  "exec_stmts e cs s = (s', r) \<Longrightarrow>
   set (intermediates s') \<subseteq> set (intermediates s) \<union> set (appended cs)"
proof (induction cs arbitrary: s)
  case Nil
  then show ?case by simp
next
  case (Cons c cs)
  obtain s1 r1 where c: "exec_stmt e c s = (s1, r1)" by (cases "exec_stmt e c s")
  note i = exec_stmt_intermediates [OF c]
  show ?case
  proof (cases r1)
    case None
    with Cons.prems c have "exec_stmts e cs s1 = (s', r)" by simp
    from Cons.IH [OF this] i show ?thesis
      unfolding appended_Cons [of c cs] by blast
  next
    case (Some err)
    with Cons.prems c have "s' = s1" by simp
    with i show ?thesis unfolding appended_Cons [of c cs] by blast
  qed
qed

lemma exec_stmt_files: "exec_stmt e c s = (s', r) \<Longrightarrow> files s \<subseteq> files s'"
  by (cases c) (auto split: option.splits)

lemma exec_stmts_files: "exec_stmts e cs s = (s', r) \<Longrightarrow> files s \<subseteq> files s'"
proof (induction cs arbitrary: s)
  case Nil
  then show ?case by simp
next
  case (Cons c cs)
  obtain s1 r1 where c: "exec_stmt e c s = (s1, r1)" by (cases "exec_stmt e c s")
  note i = exec_stmt_files [OF c]
  show ?case
  proof (cases r1)
    case None
    with Cons.prems c have "exec_stmts e cs s1 = (s', r)" by simp
    from Cons.IH [OF this] i show ?thesis by blast
  next
    case (Some err)
    with Cons.prems c have "s' = s1" by simp
    with i show ?thesis by blast
  qed
qed

lemma exec_stmts_append:
  "exec_stmts e (xs @ ys) s =
     (case exec_stmts e xs s of
        (s', Some err) \<Rightarrow> (s', Some err)
      | (s', None) \<Rightarrow> exec_stmts e ys s')"
  by (induction xs arbitrary: s) (auto split: prod.splits option.splits)

lemma exec_stmts_ok:
  "run_ok e cs \<Longrightarrow> exec_stmts e cs s = (s', r) \<Longrightarrow>
   r = None \<and> intermediates s' = intermediates s @ appended cs
   \<and> files s' = files s \<union> set (created cs) \<and> trace s' = trace s @ sites e cs"
proof (induction cs arbitrary: s)
  case Nil
  then show ?case by simp
next
  case (Cons c cs)
  show ?case
  proof (cases c)
    case (AddMessage m)
    with Cons.prems have "run_ok e cs"
      "exec_stmts e cs (s\<lparr>messages := messages s @ [Message m]\<rparr>) = (s', r)" by simp_all
    from Cons.IH [OF this] AddMessage show ?thesis by simp
  next
    case (AddWarningMessage m)
    with Cons.prems have "run_ok e cs"
      "exec_stmts e cs (s\<lparr>messages := messages s @ [WarningMessage m]\<rparr>) = (s', r)" by simp_all
    from Cons.IH [OF this] AddWarningMessage show ?thesis by simp
  next
    case (Tool n outs)
    with Cons.prems have ok: "run_ok e cs" and f: "fails e n = None" by simp_all
    with Cons.prems Tool have
      "exec_stmts e cs (s\<lparr>trace := trace s @ [n], files := files s \<union> set outs\<rparr>) = (s', r)"
      by simp
    from Cons.IH [OF ok this] Tool show ?thesis by (simp add: Un_assoc)
  next
    case (Append ps)
    with Cons.prems have "run_ok e cs"
      "exec_stmts e cs (s\<lparr>intermediates := intermediates s @ ps\<rparr>) = (s', r)" by simp_all
    from Cons.IH [OF this] Append show ?thesis by simp
  next
    case (TryExcept n m w)
    with Cons.prems have ok: "run_ok e cs" and f: "fails e n = None \<or> fails e m = None"
      by simp_all
    show ?thesis
    proof (cases "fails e n")
      case None
      with Cons.prems TryExcept have
        "exec_stmts e cs (s\<lparr>trace := trace s @ [n]\<rparr>) = (s', r)" by simp
      from Cons.IH [OF ok this] TryExcept None show ?thesis by simp
    next
      case (Some err)
      with f have "fails e m = None" by simp
      with Cons.prems TryExcept Some have
        "exec_stmts e cs (s\<lparr>trace := trace s @ [n, m],
            messages := messages s @ [WarningMessage w]\<rparr>) = (s', r)" by simp
      from Cons.IH [OF ok this] TryExcept Some show ?thesis by simp
    qed
  qed
qed

lemma exec_stmts_fail:
  assumes "run_ok e xs" and "fails e n = Some err"
    and "exec_stmts e (xs @ Tool n outs # ys) s = (s', r)"
  shows "r = Some err \<and> trace s' = trace s @ sites e xs @ [n]
    \<and> intermediates s' = intermediates s @ appended xs
    \<and> files s' = files s \<union> set (created xs)"
proof -
  obtain s1 r1 where x: "exec_stmts e xs s = (s1, r1)" by (cases "exec_stmts e xs s")
  from exec_stmts_ok [OF assms(1) x] have k: "r1 = None"
    "intermediates s1 = intermediates s @ appended xs"
    "files s1 = files s \<union> set (created xs)" "trace s1 = trace s @ sites e xs"
    by simp_all
  from assms(3) x k(1) assms(2) have "s' = s1\<lparr>trace := trace s1 @ [n]\<rparr>" "r = Some err"
    by (simp_all add: exec_stmts_append)
  with k show ?thesis by simp
qed

lemma exec_stmts_None_ok:
  "exec_stmts e cs s = (s', None) \<Longrightarrow> run_ok e cs"
proof (induction cs arbitrary: s)
  case Nil
  then show ?case by simp
next
  case (Cons c cs)
  obtain s1 r1 where c: "exec_stmt e c s = (s1, r1)" by (cases "exec_stmt e c s")
  with Cons.prems have r1: "r1 = None" by (cases r1) simp_all
  with Cons.prems c have "exec_stmts e cs s1 = (s', None)" by simp
  from Cons.IH [OF this] have ok: "run_ok e cs" .
  from c r1 have "run_ok e [c]"
    by (cases c) (auto split: option.splits)
  with ok show ?case by (cases c) simp_all
qed

subsection \<open>The trace of engine calls\<close>

lemma exec_stmt_trace:
  assumes "exec_stmt e c s = (s', r)"
  shows "\<exists>new. trace s' = trace s @ new \<and>
           (case r of None \<Rightarrow> clean e (caught [c]) new
            | Some err \<Rightarrow> new \<noteq> [] \<and> fails e (last new) = Some err
                          \<and> clean e (caught [c]) (butlast new))"
  using assms by (cases c) (auto simp add: clean_def split: option.splits)

lemma caught_Cons: "caught (c # cs) = caught [c] \<union> caught cs"
  by (cases c) auto

lemma clean_mono: "clean e C ns \<Longrightarrow> C \<subseteq> D \<Longrightarrow> clean e D ns"
  by (auto simp add: clean_def)

lemma clean_append: "clean e C (xs @ ys) \<longleftrightarrow> clean e C xs \<and> clean e C ys"
  by (auto simp add: clean_def)

lemma exec_stmts_trace:
  "exec_stmts e cs s = (s', r) \<Longrightarrow>
   \<exists>new. trace s' = trace s @ new \<and>
     (case r of None \<Rightarrow> clean e (caught cs) new
      | Some err \<Rightarrow> new \<noteq> [] \<and> fails e (last new) = Some err
                    \<and> clean e (caught cs) (butlast new))"
proof (induction cs arbitrary: s)
  case Nil
  then show ?case by (simp add: clean_def)
next
  case (Cons c cs)
  obtain s1 r1 where c: "exec_stmt e c s = (s1, r1)" by (cases "exec_stmt e c s")
  from exec_stmt_trace [OF c] obtain n1 where
    n1: "trace s1 = trace s @ n1"
    and k1: "case r1 of None \<Rightarrow> clean e (caught [c]) n1
            | Some err \<Rightarrow> n1 \<noteq> [] \<and> fails e (last n1) = Some err
                          \<and> clean e (caught [c]) (butlast n1)"
    by blast
  have sub: "caught [c] \<subseteq> caught (c # cs)" "caught cs \<subseteq> caught (c # cs)"
    using caught_Cons [of c cs] by auto
  show ?case
  proof (cases r1)
    case None
    with Cons.prems c have "exec_stmts e cs s1 = (s', r)" by simp
    from Cons.IH [OF this] obtain n2 where
      n2: "trace s' = trace s1 @ n2"
      and k2: "case r of None \<Rightarrow> clean e (caught cs) n2
              | Some err \<Rightarrow> n2 \<noteq> [] \<and> fails e (last n2) = Some err
                            \<and> clean e (caught cs) (butlast n2)"
      by blast
    from None k1 have c1: "clean e (caught (c # cs)) n1"
      using clean_mono sub(1) by auto
    have "trace s' = trace s @ (n1 @ n2)" using n1 n2 by simp
    moreover have "case r of None \<Rightarrow> clean e (caught (c # cs)) (n1 @ n2)
              | Some err \<Rightarrow> n1 @ n2 \<noteq> [] \<and> fails e (last (n1 @ n2)) = Some err
                            \<and> clean e (caught (c # cs)) (butlast (n1 @ n2))"
    proof (cases r)
      case None
      with k2 have "clean e (caught (c # cs)) n2" using clean_mono sub(2) by auto
      with c1 None show ?thesis by (simp add: clean_append)
    next
      case (Some err)
      with k2 have ne: "n2 \<noteq> []" and f: "fails e (last n2) = Some err"
        and "clean e (caught cs) (butlast n2)" by auto
      then have "clean e (caught (c # cs)) (butlast n2)" using clean_mono sub(2) by blast
      with c1 ne f Some show ?thesis by (simp add: clean_append butlast_append)
    qed
    ultimately show ?thesis by blast
  next
    case (Some err)
    with Cons.prems c have eq: "s' = s1" "r = Some err" by simp_all
    from Some k1 have "n1 \<noteq> []" "fails e (last n1) = Some err"
      "clean e (caught (c # cs)) (butlast n1)"
      using clean_mono sub(1) by auto
    with n1 eq show ?thesis by auto
  qed
qed

lemma caught_append: "caught (xs @ ys) = caught xs \<union> caught ys"
  by (induction xs rule: caught.induct) auto

lemma caught_ensure: "caught (ensure_Shape_Area e a b x) = {}"
  by (simp add: ensure_Shape_Area_def)

lemma caught_body: "caught (body e p) = {249}"
  by (simp add: body_def step_1_def steps_2_to_7_def steps_8_to_10_def caught_append
      caught_ensure Let_def)

subsection \<open>Handlers, cleanup and \<open>execute\<close>\<close>

lemma fold_delete_path:
  "fold (delete_path e) xs fs = fs - {x \<in> set xs. \<not> Delete_fails e x}"
  by (induction xs arbitrary: fs) (auto simp add: delete_path_def)

lemma files_cleanup:
  "files (cleanup e s) = files s - {x \<in> set (intermediates s). \<not> Delete_fails e x}"
  by (simp add: cleanup_def fold_delete_path)

lemma cleanup_other [simp]:
  "intermediates (cleanup e s) = intermediates s"
  "trace (cleanup e s) = trace s"
  "messages (cleanup e s) = messages s"
  by (simp_all add: cleanup_def)

lemma handlers_other [simp]:
  "intermediates (handlers e r s) = intermediates s"
  "trace (handlers e r s) = trace s"
  "files (handlers e r s) = files s"
  by (simp_all add: handlers_def split: option.splits error.splits)

lemma handlers_messages:
  "messages (handlers e (Some err) s) = messages s @
     [ErrorMessage (case err of ExecuteError m \<Rightarrow> GetMessages e
                              | Exception m \<Rightarrow> ''Unexpected error: '' @ m)]"
  by (simp add: handlers_def split: error.splits)

lemma exec_stmt_Delete_fails:
  "exec_stmt (e\<lparr>Delete_fails := d\<rparr>) c s = exec_stmt e c s"
  by (cases c) (simp_all split: option.splits)

lemma exec_stmts_Delete_fails:
  "exec_stmts (e\<lparr>Delete_fails := d\<rparr>) cs s = exec_stmts e cs s"
  by (induction cs arbitrary: s) (simp_all add: exec_stmt_Delete_fails)

lemma body_Delete_fails: "body (e\<lparr>Delete_fails := d\<rparr>) p = body e p"
  by (simp add: body_def step_1_def steps_2_to_7_def steps_8_to_10_def tmp_def shp_def
      ensure_Shape_Area_def Let_def)

lemma validate_Delete_fails: "validate (e\<lparr>Delete_fails := d\<rparr>) p fs = validate e p fs"
  by (simp add: validate_def)

lemma execute_result_Delete_fails:
  "snd (execute (e\<lparr>Delete_fails := d\<rparr>) p fs) = snd (execute e p fs)"
  by (simp add: execute_def validate_Delete_fails body_Delete_fails exec_stmts_Delete_fails
      split: option.splits prod.splits)

lemma run_ok_Delete_fails: "run_ok (e\<lparr>Delete_fails := d\<rparr>) cs = run_ok e cs"
  by (induction e cs rule: run_ok.induct) simp_all

lemmas path_defs = tmp_def shp_def endswith_def lower_def splitext_root_def is_sep_def

lemmas body_defs = body_def step_1_def steps_2_to_7_def steps_8_to_10_def mask_given_def
  ensure_Shape_Area_def

lemma body_fails: "body (e\<lparr>fails := f\<rparr>) p = body e p"
  by (simp add: body_defs tmp_def shp_def Let_def)

lemma body_input_raster: "body e (p\<lparr>input_raster := x\<rparr>) = body e p"
  by (simp add: body_defs tmp_def shp_def Let_def)

lemma execute_valid:
  "validate e p fs = None \<Longrightarrow> exec_stmts e (body e p) (initial fs) = (s1, r1) \<Longrightarrow>
   execute e p fs = (cleanup e (handlers e r1 s1), r1)"
  by (simp add: execute_def)

lemma execute_ok:
  assumes "validate e p fs = None" and "run_ok e (body e p)" and "execute e p fs = (s, r)"
  shows "r = None \<and> intermediates s = appended (body e p)
    \<and> files s = (fs \<union> set (created (body e p)))
                 - {x \<in> set (appended (body e p)). \<not> Delete_fails e x}
    \<and> trace s = sites e (body e p)"
proof -
  obtain s1 r1 where b: "exec_stmts e (body e p) (initial fs) = (s1, r1)"
    by (cases "exec_stmts e (body e p) (initial fs)")
  from exec_stmts_ok [OF assms(2) b] have
    k: "r1 = None" "intermediates s1 = appended (body e p)"
       "files s1 = fs \<union> set (created (body e p))" "trace s1 = sites e (body e p)"
    by (simp_all add: initial_def)
  from assms(1,3) b have "s = cleanup e (handlers e r1 s1)" "r = r1"
    by (auto simp add: execute_def)
  with k show ?thesis by (simp add: files_cleanup)
qed

lemma invalid_run:
  assumes "execute e p fs = (s, r)" and "validate e p fs = Some err"
  shows "r = Some err \<and> s = initial fs"
  using assms by (auto simp add: execute_def)

lemma deleted_only_tracked:
  assumes "execute e p fs = (s, r)"
  shows "fs - files s \<subseteq> set (intermediates s)"
proof (cases "validate e p fs")
  case (Some err)
  with assms show ?thesis by (auto simp add: execute_def initial_def)
next
  case None
  obtain s1 r1 where b: "exec_stmts e (body e p) (initial fs) = (s1, r1)"
    by (cases "exec_stmts e (body e p) (initial fs)")
  from exec_stmts_files [OF b] have "fs \<subseteq> files s1" by (simp add: initial_def)
  moreover from assms execute_valid [OF None b] have "s = cleanup e (handlers e r1 s1)"
    by auto
  ultimately show ?thesis by (auto simp add: files_cleanup)
qed

lemma tracked_subset_appended:
  assumes "execute e p fs = (s, r)"
  shows "set (intermediates s) \<subseteq> set (appended (body e p))"
proof (cases "validate e p fs")
  case (Some err)
  with assms show ?thesis by (auto simp add: execute_def initial_def)
next
  case None
  obtain s1 r1 where b: "exec_stmts e (body e p) (initial fs) = (s1, r1)"
    by (cases "exec_stmts e (body e p) (initial fs)")
  from exec_stmts_intermediates [OF b] have
    "set (intermediates s1) \<subseteq> set (appended (body e p))" by (simp add: initial_def)
  moreover from assms execute_valid [OF None b] have "s = cleanup e (handlers e r1 s1)"
    by auto
  ultimately show ?thesis by simp
qed

lemma tracked_absent:
  assumes "execute e p fs = (s, r)" and "x \<in> set (intermediates s)" and "x \<in> files s"
  shows "Delete_fails e x"
proof (cases "validate e p fs")
  case (Some err)
  with assms show ?thesis by (auto simp add: execute_def initial_def)
next
  case None
  obtain s1 r1 where b: "exec_stmts e (body e p) (initial fs) = (s1, r1)"
    by (cases "exec_stmts e (body e p) (initial fs)")
  from assms(1) execute_valid [OF None b] have "s = cleanup e (handlers e r1 s1)"
    by auto
  with assms(2,3) show ?thesis by (auto simp add: files_cleanup)
qed

lemma success_tracks_all:
  assumes "execute e p fs = (s, None)" and "validate e p fs = None"
  shows "intermediates s = appended (body e p)"
proof -
  obtain s1 r1 where b: "exec_stmts e (body e p) (initial fs) = (s1, r1)"
    by (cases "exec_stmts e (body e p) (initial fs)")
  from assms(1) execute_valid [OF assms(2) b] have "r1 = None" by simp
  with b have "run_ok e (body e p)" using exec_stmts_None_ok by blast
  from execute_ok [OF assms(2) this assms(1)] show ?thesis by simp
qed

lemma trace_of_run:
  assumes "execute e p fs = (s, r)" and "validate e p fs = None"
  shows "(case r of None \<Rightarrow> clean e {249} (trace s)
          | Some err \<Rightarrow> trace s \<noteq> [] \<and> fails e (last (trace s)) = Some err
                        \<and> clean e {249} (butlast (trace s)))"
proof -
  obtain s1 r1 where b: "exec_stmts e (body e p) (initial fs) = (s1, r1)"
    by (cases "exec_stmts e (body e p) (initial fs)")
  from assms(1) execute_valid [OF assms(2) b] have eq: "s = cleanup e (handlers e r1 s1)" "r = r1"
    by auto
  from exec_stmts_trace [OF b, unfolded caught_body] have
    "case r1 of None \<Rightarrow> clean e {249} (trace s1)
     | Some err \<Rightarrow> trace s1 \<noteq> [] \<and> fails e (last (trace s1)) = Some err
                   \<and> clean e {249} (butlast (trace s1))"
    by (simp add: initial_def)
  moreover from eq have "trace s = trace s1" by simp
  ultimately show ?thesis using eq(2) by (simp split: option.splits)
qed

lemma message_of_run:
  assumes "execute e p fs = (s, Some err)" and "validate e p fs = None"
  shows "last (messages s) =
     ErrorMessage (case err of ExecuteError m \<Rightarrow> GetMessages e
                             | Exception m \<Rightarrow> ''Unexpected error: '' @ m)"
proof -
  obtain s1 r1 where b: "exec_stmts e (body e p) (initial fs) = (s1, r1)"
    by (cases "exec_stmts e (body e p) (initial fs)")
  from assms(1) execute_valid [OF assms(2) b] have "s = cleanup e (handlers e (Some err) s1)"
    by auto
  then show ?thesis by (simp add: handlers_messages)
qed

subsection \<open>The concrete runs evaluated\<close>

lemma appended_append: "appended (xs @ ys) = appended xs @ appended ys"
  by (induction xs rule: appended.induct) auto

lemma created_append: "created (xs @ ys) = created xs @ created ys"
  by (induction xs rule: created.induct) auto

lemma sites_append: "sites e (xs @ ys) = sites e xs @ sites e ys"
  by (induction e xs rule: sites.induct) auto

lemma run_ok_append: "run_ok e (xs @ ys) \<longleftrightarrow> run_ok e xs \<and> run_ok e ys"
  by (induction e xs rule: run_ok.induct) auto

lemma tmp_quiet:
  "tmp quiet_env ''C:/ws/'' ''classified'' = ''C:/ws/classified.tif''"
  "tmp quiet_env ''C:/ws/'' ''dead_trees'' = ''C:/ws/dead_trees.tif''"
  "tmp quiet_env ''C:/ws/'' ''blue_mask'' = ''C:/ws/blue_mask.tif''"
  "tmp quiet_env ''C:/ws/'' ''extracted_raster_one_band'' = ''C:/ws/extracted_raster_one_band.tif''"
  "tmp quiet_env ''C:/ws/'' ''filtered'' = ''C:/ws/filtered.tif''"
  "tmp quiet_env ''C:/ws/'' ''expanded'' = ''C:/ws/expanded.tif''"
  "tmp quiet_env ''C:/ws/'' ''shrinked'' = ''C:/ws/shrinked.tif''"
  "tmp quiet_env ''C:/ws/'' ''region_group'' = ''C:/ws/region_group.tif''"
  by (simp_all add: path_defs quiet_env_def)

lemma shp_quiet:
  "shp quiet_env ''C:/ws/'' ''dead_trees_vector'' = ''C:/ws/dead_trees_vector.shp''"
  "shp quiet_env ''C:/ws/'' ''dead_trees_selected'' = ''C:/ws/dead_trees_selected.shp''"
  "shp quiet_env ''C:/ws/'' ''buffered_trees'' = ''C:/ws/buffered_trees.shp''"
  "shp quiet_env ''C:/ws/'' ''dissolved_buffer'' = ''C:/ws/dissolved_buffer.shp''"
  "shp quiet_env ''C:/ws/'' ''trees_buffer_processed'' = ''C:/ws/trees_buffer_processed.shp''"
  by (simp_all add: path_defs quiet_env_def)

lemma no_mask [simp]: "\<not> mask_given no_mask_params" "workspace no_mask_params = ''C:/ws/''"
  "output_features no_mask_params = ''C:/out/dead_trees.shp''"
  by (simp_all add: mask_given_def no_mask_params_def)

lemma quiet [simp]: "has_Shape_Area quiet_env x = False" "fails quiet_env n = None"
  by (simp_all add: quiet_env_def)

lemma appended_body_quiet:
  "appended (body quiet_env no_mask_params) =
    [''C:/ws/classified.tif'', ''C:/ws/dead_trees.tif'',
     ''C:/ws/blue_mask.tif'', ''C:/ws/extracted_raster_one_band.tif'',
     ''C:/ws/filtered.tif'', ''C:/ws/expanded.tif'', ''C:/ws/shrinked.tif'',
     ''C:/ws/region_group.tif'', ''C:/ws/dead_trees_vector.shp'',
     ''C:/ws/dead_trees_selected.shp'', ''C:/ws/buffered_trees.shp'',
     ''C:/ws/dissolved_buffer.shp'']"
  by (simp add: body_def step_1_def steps_2_to_7_def steps_8_to_10_def ensure_Shape_Area_def
      tmp_quiet shp_quiet Let_def appended_append)

lemma created_body_quiet:
  "created (body quiet_env no_mask_params) =
    [''C:/ws/classified.tif'', ''C:/ws/dead_trees.tif'',
     ''C:/ws/blue_mask.tif'', ''C:/ws/extracted_raster_one_band.tif'',
     ''C:/ws/filtered.tif'', ''C:/ws/expanded.tif'', ''C:/ws/shrinked.tif'',
     ''C:/ws/region_group.tif'', ''C:/ws/dead_trees_vector.shp'',
     ''C:/ws/dead_trees_selected.shp'', ''C:/ws/buffered_trees.shp'',
     ''C:/ws/dissolved_buffer.shp'', ''C:/ws/trees_buffer_processed.shp'',
     ''C:/out/dead_trees.shp'']"
  by (simp add: body_def step_1_def steps_2_to_7_def steps_8_to_10_def ensure_Shape_Area_def
      tmp_quiet shp_quiet Let_def created_append)

lemma sites_body_band:
  "sites band_env (body quiet_env no_mask_params) =
    [225, 242, 249, 252, 258, 262, 268, 274, 278, 284, 288, 291, 292, 293, 296,
     302, 309, 312, 313, 314, 320, 323]"
  by (simp add: body_def step_1_def steps_2_to_7_def steps_8_to_10_def ensure_Shape_Area_def
      Let_def sites_append band_env_def)

lemma run_ok_band: "run_ok band_env (body quiet_env no_mask_params)"
  by (simp add: body_def step_1_def steps_2_to_7_def steps_8_to_10_def ensure_Shape_Area_def
      Let_def run_ok_append band_env_def)

lemma run_ok_quiet: "run_ok quiet_env (body quiet_env no_mask_params)"
  by (simp add: body_def step_1_def steps_2_to_7_def steps_8_to_10_def ensure_Shape_Area_def
      Let_def run_ok_append)

lemma validate_quiet: "validate quiet_env no_mask_params workspace_before = None"
  by (simp add: validate_def mask_missing_def quiet_env_def no_mask_params_def workspace_before_def)

lemma quiet_run:
  "snd (execute quiet_env no_mask_params workspace_before) = None"
  "intermediates (fst (execute quiet_env no_mask_params workspace_before))
     = appended (body quiet_env no_mask_params)"
  "files (fst (execute quiet_env no_mask_params workspace_before))
     = (workspace_before \<union> set (created (body quiet_env no_mask_params)))
       - set (appended (body quiet_env no_mask_params))"
  using execute_ok [OF validate_quiet run_ok_quiet,
      of "fst (execute quiet_env no_mask_params workspace_before)"
         "snd (execute quiet_env no_mask_params workspace_before)"]
  by (auto simp add: quiet_env_def)

lemma fail_env_simps [simp]:
  "fails fail_env n = (if n = 242 then Some (ExecuteError ''ERROR 010067'') else None)"
  "GetMessages fail_env = ''ERROR 010067: Error in executing grid expression.''"
  by (simp_all add: fail_env_def)

lemma body_fail_env: "body fail_env p = body quiet_env p"
  by (simp add: fail_env_def body_defs tmp_def shp_def Let_def)

lemma validate_fail_env: "validate fail_env no_mask_params workspace_before = None"
  by (simp add: validate_def mask_missing_def fail_env_def quiet_env_def no_mask_params_def
      workspace_before_def)

lemma fail_run:
  "snd (execute fail_env no_mask_params workspace_before) = Some (ExecuteError ''ERROR 010067'')"
  "trace (fst (execute fail_env no_mask_params workspace_before)) = [225, 242]"
proof -
  define xs where "xs = step_1 quiet_env no_mask_params @
     [AddMessage ''Step 2/10: Creating unsupervised classes with IsoCluster'',
      Tool 225 [''C:/ws/classified.tif''],
      Append [''C:/ws/classified.tif''],
      AddMessage ''Step 3/10: Skipping MLClassify'',
      AddMessage ''Step 4/10: Reclassifying to isolate likely dead trees'']"
  obtain ys where b: "body quiet_env no_mask_params = xs @ Tool 242 [''C:/ws/dead_trees.tif''] # ys"
    by (simp add: xs_def body_def steps_2_to_7_def tmp_quiet Let_def)
  have ok: "run_ok fail_env xs" by (simp add: xs_def step_1_def run_ok_append)
  have st: "sites fail_env xs = [225]" by (simp add: xs_def step_1_def sites_append)
  obtain s1 r1 where x: "exec_stmts fail_env (body fail_env no_mask_params) (initial workspace_before) = (s1, r1)"
    by (cases "exec_stmts fail_env (body fail_env no_mask_params) (initial workspace_before)")
  have f: "fails fail_env 242 = Some (ExecuteError ''ERROR 010067'')" by simp
  from exec_stmts_fail [OF ok f x [unfolded body_fail_env b]]
  have "r1 = Some (ExecuteError ''ERROR 010067'')" "trace s1 = [225, 242]"
    by (simp_all add: st initial_def)
  with execute_valid [OF validate_fail_env x]
  show "snd (execute fail_env no_mask_params workspace_before) = Some (ExecuteError ''ERROR 010067'')"
    "trace (fst (execute fail_env no_mask_params workspace_before)) = [225, 242]"
    by simp_all
qed

subsection \<open>Cleanup of the intermediates\<close>

text \<open>
  What the cleanup does for every run: a path in \<open>intermediates\<close> is absent from the
  workspace afterwards unless its deletion raised; only paths in \<open>intermediates\<close> are
  deleted; \<open>intermediates\<close> holds only paths that the body appends, and all of them after
  a run without error; and whether deletions raise has no influence on the result.
\<close>

lemma cleanup_deletes_tracked:
  assumes "execute e p fs = (s, r)"
  shows "(\<forall>x\<in>set (intermediates s). x \<in> files s \<longrightarrow> Delete_fails e x)
    \<and> fs - files s \<subseteq> set (intermediates s)
    \<and> set (intermediates s) \<subseteq> set (appended (body e p))
    \<and> (validate e p fs = None \<and> r = None \<longrightarrow> intermediates s = appended (body e p))
    \<and> snd (execute (e\<lparr>Delete_fails := d\<rparr>) p fs) = r"
proof -
  have "snd (execute (e\<lparr>Delete_fails := d\<rparr>) p fs) = r"
    using execute_result_Delete_fails [where e = e and d = d and p = p and fs = fs] assms by simp
  with tracked_absent [OF assms] deleted_only_tracked [OF assms]
    tracked_subset_appended [OF assms] success_tracks_all [of e p fs s] assms
  show ?thesis by blast
qed

text \<open>
  A deletion that raises is swallowed: the run succeeds and the classified raster, a
  tracked intermediate, stays in the workspace.
\<close>

lemma swallowed_deletion_failure:
  "snd (execute locked_env no_mask_params workspace_before) = None
   \<and> ''C:/ws/classified.tif''
       \<in> set (intermediates (fst (execute locked_env no_mask_params workspace_before)))
   \<and> ''C:/ws/classified.tif'' \<in> files (fst (execute locked_env no_mask_params workspace_before))"
proof -
  have b: "body locked_env no_mask_params = body quiet_env no_mask_params"
    by (simp add: locked_env_def body_Delete_fails)
  have v: "validate locked_env no_mask_params workspace_before = None"
    using validate_quiet by (simp add: locked_env_def validate_Delete_fails)
  have o: "run_ok locked_env (body locked_env no_mask_params)"
    unfolding b using run_ok_quiet by (simp add: locked_env_def run_ok_Delete_fails)
  have d: "Delete_fails locked_env x \<longleftrightarrow> x = ''C:/ws/classified.tif''" for x
    by (simp add: locked_env_def)
  from execute_ok [OF v o, of "fst (execute locked_env no_mask_params workspace_before)"
         "snd (execute locked_env no_mask_params workspace_before)"]
  show ?thesis
    unfolding b by (simp add: d appended_body_quiet created_body_quiet)
qed

text \<open>
  The paths that the body appends and the datasets that it creates, for every environment
  and all parameters. The dataset \<open>trees_buffer_processed\<close> of line 319 is created and
  never appended; \<open>dead_trees_vector\<close> is created at line 288 and appended at line 297,
  \<open>dissolved_buffer\<close> is created at line 309 and appended at line 315.
\<close>

lemma appended_ensure: "appended (ensure_Shape_Area e a b x) = []"
  by (simp add: ensure_Shape_Area_def)

lemma created_ensure: "created (ensure_Shape_Area e a b x) = []"
  by (simp add: ensure_Shape_Area_def)

lemma appended_body:
  "appended (body e p) =
     (if mask_given p then [tmp e (workspace p) ''aerial_image''] else []) @
     [tmp e (workspace p) ''classified'', tmp e (workspace p) ''dead_trees'',
      tmp e (workspace p) ''blue_mask'', tmp e (workspace p) ''extracted_raster_one_band'',
      tmp e (workspace p) ''filtered'', tmp e (workspace p) ''expanded'',
      tmp e (workspace p) ''shrinked'', tmp e (workspace p) ''region_group'',
      shp e (workspace p) ''dead_trees_vector'', shp e (workspace p) ''dead_trees_selected'',
      shp e (workspace p) ''buffered_trees'', shp e (workspace p) ''dissolved_buffer'']"
  by (simp add: body_def step_1_def steps_2_to_7_def steps_8_to_10_def Let_def
      appended_append appended_ensure)

lemma created_body:
  "created (body e p) =
     (if mask_given p then [tmp e (workspace p) ''aerial_image''] else []) @
     [tmp e (workspace p) ''classified'', tmp e (workspace p) ''dead_trees'',
      tmp e (workspace p) ''blue_mask'', tmp e (workspace p) ''extracted_raster_one_band'',
      tmp e (workspace p) ''filtered'', tmp e (workspace p) ''expanded'',
      tmp e (workspace p) ''shrinked'', tmp e (workspace p) ''region_group'',
      shp e (workspace p) ''dead_trees_vector'', shp e (workspace p) ''dead_trees_selected'',
      shp e (workspace p) ''buffered_trees'', shp e (workspace p) ''dissolved_buffer'',
      shp e (workspace p) ''trees_buffer_processed'', output_features p]"
  by (simp add: body_def step_1_def steps_2_to_7_def steps_8_to_10_def Let_def
      created_append created_ensure)

text \<open>
  A run whose first fatal error is the engine call \<open>n\<close>.
\<close>

lemma execute_fail:
  assumes "validate e p fs = None"
    and "body e p = xs @ Tool n outs # ys"
    and "run_ok e xs" and "fails e n = Some err"
    and "execute e p fs = (s, r)"
  shows "r = Some err \<and> intermediates s = appended xs
    \<and> files s = (fs \<union> set (created xs)) - {x \<in> set (appended xs). \<not> Delete_fails e x}
    \<and> trace s = sites e xs @ [n]"
proof -
  obtain s1 r1 where b: "exec_stmts e (body e p) (initial fs) = (s1, r1)"
    by (cases "exec_stmts e (body e p) (initial fs)")
  from exec_stmts_fail [OF assms(3,4) b [unfolded assms(2)]] have
    k: "r1 = Some err" "intermediates s1 = appended xs"
       "files s1 = fs \<union> set (created xs)" "trace s1 = sites e xs @ [n]"
    by (simp_all add: initial_def)
  from assms(5) execute_valid [OF assms(1) b] have "s = cleanup e (handlers e r1 s1)" "r = r1"
    by auto
  with k show ?thesis by (simp add: files_cleanup)
qed

lemma calc_env_simps [simp]:
  "fails calc_env n = (if n = 293 then Some (ExecuteError ''ERROR 000539'') else None)"
  "Delete_fails calc_env x = False"
  by (simp_all add: calc_env_def quiet_env_def)

lemma calc_run:
  "snd (execute calc_env no_mask_params workspace_before) = Some (ExecuteError ''ERROR 000539'')"
  "''C:/ws/dead_trees_vector.shp'' \<in> files (fst (execute calc_env no_mask_params workspace_before))"
  "''C:/ws/dead_trees_vector.shp''
     \<notin> set (intermediates (fst (execute calc_env no_mask_params workspace_before)))"
proof -
  define xs where "xs = step_1 quiet_env no_mask_params @ steps_2_to_7 quiet_env no_mask_params @
     [AddMessage ''Step 8/10: Converting raster to polygons and filtering by area'',
      Tool 284 [''C:/ws/region_group.tif''],
      Append [''C:/ws/region_group.tif''],
      Tool 288 [''C:/ws/dead_trees_vector.shp''],
      Tool 291 [], Tool 292 []]"
  have bq: "body calc_env no_mask_params = body quiet_env no_mask_params"
    by (simp add: calc_env_def body_fails)
  obtain ys where b: "body calc_env no_mask_params = xs @ Tool 293 [] # ys"
    unfolding bq
    by (simp add: xs_def body_def steps_8_to_10_def ensure_Shape_Area_def tmp_quiet shp_quiet Let_def)
  have ok: "run_ok calc_env xs"
    by (simp add: xs_def step_1_def steps_2_to_7_def Let_def run_ok_append)
  have ap: "appended xs =
    [''C:/ws/classified.tif'', ''C:/ws/dead_trees.tif'',
     ''C:/ws/blue_mask.tif'', ''C:/ws/extracted_raster_one_band.tif'',
     ''C:/ws/filtered.tif'', ''C:/ws/expanded.tif'', ''C:/ws/shrinked.tif'',
     ''C:/ws/region_group.tif'']"
    by (simp add: xs_def step_1_def steps_2_to_7_def Let_def appended_append tmp_quiet)
  have cr: "''C:/ws/dead_trees_vector.shp'' \<in> set (created xs)"
    by (simp add: xs_def created_append)
  have v: "validate calc_env no_mask_params workspace_before = None"
    by (simp add: validate_def mask_missing_def calc_env_def quiet_env_def no_mask_params_def
        workspace_before_def)
  have f: "fails calc_env 293 = Some (ExecuteError ''ERROR 000539'')" by simp
  from execute_fail [OF v b ok f
      surjective_pairing [of "execute calc_env no_mask_params workspace_before"]] cr
  show "snd (execute calc_env no_mask_params workspace_before) = Some (ExecuteError ''ERROR 000539'')"
  "''C:/ws/dead_trees_vector.shp'' \<in> files (fst (execute calc_env no_mask_params workspace_before))"
  "''C:/ws/dead_trees_vector.shp''
     \<notin> set (intermediates (fst (execute calc_env no_mask_params workspace_before)))"
    by (simp_all add: ap)
qed

text \<open>
  Claim C5 at two runs in which no deletion raises. In the run where nothing raises at
  all, \<open>trees_buffer_processed.shp\<close>, which did not exist before, is in the workspace
  afterwards. In the run where \<open>CalculateField\<close> at line 293 raises,
  \<open>dead_trees_vector.shp\<close> is in the workspace afterwards. The claim says that none of the
  intermediate datasets remains after a run.
\<close>

theorem cleanup_leaves_untracked_datasets:
  "Delete_fails quiet_env = (\<lambda>x. False) \<and> Delete_fails calc_env = (\<lambda>x. False)
   \<and> ''C:/ws/trees_buffer_processed.shp'' \<notin> workspace_before
   \<and> snd (execute quiet_env no_mask_params workspace_before) = None
   \<and> ''C:/ws/trees_buffer_processed.shp''
       \<in> files (fst (execute quiet_env no_mask_params workspace_before))
   \<and> ''C:/ws/dead_trees_vector.shp'' \<notin> workspace_before
   \<and> snd (execute calc_env no_mask_params workspace_before)
       = Some (ExecuteError ''ERROR 000539'')
   \<and> ''C:/ws/dead_trees_vector.shp''
       \<in> files (fst (execute calc_env no_mask_params workspace_before))"
proof -
  have "Delete_fails quiet_env = (\<lambda>x. False)" "Delete_fails calc_env = (\<lambda>x. False)"
    by (simp_all add: quiet_env_def calc_env_def)
  moreover have "''C:/ws/trees_buffer_processed.shp'' \<notin> workspace_before"
    "''C:/ws/dead_trees_vector.shp'' \<notin> workspace_before"
    by (simp_all add: workspace_before_def)
  moreover have "snd (execute quiet_env no_mask_params workspace_before) = None"
    "''C:/ws/trees_buffer_processed.shp''
       \<in> files (fst (execute quiet_env no_mask_params workspace_before))"
    by (simp_all add: quiet_run appended_body_quiet created_body_quiet)
  ultimately show ?thesis using calc_run(1,2) by blast
qed

subsection \<open>Failure of a stage\<close>

text \<open>
  Claim C9, as amended. A failed validation is the result of the run, and nothing has been
  attempted, created or logged. An engine call other than the band read of line 249 that
  raises is the last call the run attempts, it is attempted once, its error is the result
  of the run, and the last message logged is the handler's error message. A run without
  error has no failed engine call besides, possibly, the band read. An error after
  validation is the error of the last engine call attempted.
\<close>

theorem stage_failure_aborts:
  assumes "execute e p fs = (s, r)"
  shows "(validate e p fs = Some err \<longrightarrow> r = Some err \<and> s = initial fs)
    \<and> (n \<in> set (trace s) \<and> fails e n = Some err \<and> n \<noteq> 249 \<longrightarrow>
         r = Some err
         \<and> (\<exists>pre. trace s = pre @ [n] \<and> n \<notin> set pre)
         \<and> last (messages s) =
             ErrorMessage (case err of ExecuteError m \<Rightarrow> GetMessages e
                                     | Exception m \<Rightarrow> ''Unexpected error: '' @ m))
    \<and> (r = None \<longrightarrow> (\<forall>k\<in>set (trace s). fails e k = None \<or> k = 249))
    \<and> (validate e p fs = None \<and> r \<noteq> None \<longrightarrow>
         trace s \<noteq> [] \<and> fails e (last (trace s)) = r)"
proof (cases "validate e p fs")
  case (Some verr)
  from invalid_run [OF assms Some] show ?thesis
    using Some by (simp add: initial_def)
next
  case None
  note t = trace_of_run [OF assms None]
  have a: "r = Some err \<and> (\<exists>pre. trace s = pre @ [n] \<and> n \<notin> set pre)
         \<and> last (messages s) =
             ErrorMessage (case err of ExecuteError m \<Rightarrow> GetMessages e
                                     | Exception m \<Rightarrow> ''Unexpected error: '' @ m)"
    if n: "n \<in> set (trace s)" "fails e n = Some err" "n \<noteq> 249"
  proof (cases r)
    case None
    with t n show ?thesis by (auto simp add: clean_def)
  next
    case (Some err')
    with t have ne: "trace s \<noteq> []" and l: "fails e (last (trace s)) = Some err'"
      and c: "clean e {249} (butlast (trace s))" by simp_all
    from n c have nb: "n \<notin> set (butlast (trace s))" by (auto simp add: clean_def)
    from ne have sp: "trace s = butlast (trace s) @ [last (trace s)]" by simp
    with n(1) nb have nl: "n = last (trace s)"
      by (metis Un_iff empty_iff empty_set insert_iff list.simps(15) set_append)
    with l n(2) have e: "err' = err" by simp
    with Some have r: "r = Some err" by simp
    from sp nl nb have "\<exists>pre. trace s = pre @ [n] \<and> n \<notin> set pre" by metis
    moreover from message_of_run [OF _ None, of s err] assms r
    have "last (messages s) =
             ErrorMessage (case err of ExecuteError m \<Rightarrow> GetMessages e
                                     | Exception m \<Rightarrow> ''Unexpected error: '' @ m)" by simp
    ultimately show ?thesis using r by blast
  qed
  have b: "\<forall>k\<in>set (trace s). fails e k = None \<or> k = 249" if "r = None"
    using t that by (simp add: clean_def)
  have c: "trace s \<noteq> [] \<and> fails e (last (trace s)) = r" if "r \<noteq> None"
    using t that by (cases r) simp_all
  show ?thesis
  proof (intro conjI impI)
    assume "validate e p fs = Some err"
    with None show "r = Some err" "s = initial fs" by simp_all
  next
    assume h: "n \<in> set (trace s) \<and> fails e n = Some err \<and> n \<noteq> 249"
    with a show "r = Some err" by blast
    from h a show "\<exists>pre. trace s = pre @ [n] \<and> n \<notin> set pre" by blast
    from h a show "last (messages s) =
             ErrorMessage (case err of ExecuteError m \<Rightarrow> GetMessages e
                                     | Exception m \<Rightarrow> ''Unexpected error: '' @ m)" by blast
  next
    assume "r = None"
    with b show "\<forall>k\<in>set (trace s). fails e k = None \<or> k = 249" by blast
  next
    assume h: "validate e p fs = None \<and> r \<noteq> None"
    with c show "trace s \<noteq> []" by blast
    from h c show "fails e (last (trace s)) = r" by blast
  qed
qed

text \<open>
  Claim C9, as amended, on a run where \<open>Reclassify\<close> (line 242) raises: the calls
  attempted are those of lines 225 and 242, the error is re-raised and logged; and on a
  run in an empty workspace, where validation fails before any call.
\<close>

theorem stage_failure_aborts_witness:
  "fails fail_env 242 = Some (ExecuteError ''ERROR 010067'')
   \<and> trace (fst (execute fail_env no_mask_params workspace_before)) = [225, 242]
   \<and> snd (execute fail_env no_mask_params workspace_before) = Some (ExecuteError ''ERROR 010067'')
   \<and> last (messages (fst (execute fail_env no_mask_params workspace_before)))
       = ErrorMessage ''ERROR 010067: Error in executing grid expression.''
   \<and> snd (execute quiet_env no_mask_params {})
       = Some (ExecuteError ''Input raster does not exist.'')
   \<and> trace (fst (execute quiet_env no_mask_params {})) = []"
proof -
  note th = stage_failure_aborts
    [OF surjective_pairing [of "execute fail_env no_mask_params workspace_before"],
     of "ExecuteError ''ERROR 010067''" 242]
  have v: "validate quiet_env no_mask_params {} = Some (ExecuteError ''Input raster does not exist.'')"
    by (simp add: validate_def)
  note th_invalid = stage_failure_aborts
    [OF surjective_pairing [of "execute quiet_env no_mask_params {}"],
     of "ExecuteError ''Input raster does not exist.''" 0]
  from th_invalid v have
    "snd (execute quiet_env no_mask_params {}) = Some (ExecuteError ''Input raster does not exist.'')"
    "trace (fst (execute quiet_env no_mask_params {})) = []"
    by (simp_all add: initial_def)
  with th fail_run(2) show ?thesis by simp
qed

text \<open>
  Claim C9 as stated fails for the band read: when line 249 raises, the handler of line
  250 reads the full raster instead (line 252) and every later stage runs; the run ends
  without error.
\<close>

theorem stage_failure_aborts_counterexample:
  "fails band_env 249 = Some (Exception ''no band'')
   \<and> snd (execute band_env no_mask_params workspace_before) = None
   \<and> trace (fst (execute band_env no_mask_params workspace_before)) =
       [225, 242, 249, 252, 258, 262, 268, 274, 278, 284, 288, 291, 292, 293, 296,
        302, 309, 312, 313, 314, 320, 323]"
proof -
  have b: "body band_env no_mask_params = body quiet_env no_mask_params"
    by (simp add: band_env_def body_fails)
  have v: "validate band_env no_mask_params workspace_before = None"
    by (simp add: validate_def mask_missing_def band_env_def quiet_env_def no_mask_params_def
        workspace_before_def)
  from execute_ok [OF v run_ok_band [folded b]
      surjective_pairing [of "execute band_env no_mask_params workspace_before"]]
  show ?thesis by (simp add: b sites_body_band) (simp add: band_env_def)
qed

subsection \<open>The input raster without a forest mask\<close>

text \<open>
  Without a forest mask the body appends the twelve temporary paths and nothing else.
  For every environment: when the input raster is none of these paths, it is never in
  \<open>intermediates\<close>, only paths in \<open>intermediates\<close> are deleted, and an input raster that
  existed before the run exists after it.
\<close>

lemma input_raster_kept:
  assumes "\<not> mask_given p"
    and "input_raster p \<notin> set
     [tmp e (workspace p) ''classified'', tmp e (workspace p) ''dead_trees'',
      tmp e (workspace p) ''blue_mask'', tmp e (workspace p) ''extracted_raster_one_band'',
      tmp e (workspace p) ''filtered'', tmp e (workspace p) ''expanded'',
      tmp e (workspace p) ''shrinked'', tmp e (workspace p) ''region_group'',
      shp e (workspace p) ''dead_trees_vector'', shp e (workspace p) ''dead_trees_selected'',
      shp e (workspace p) ''buffered_trees'', shp e (workspace p) ''dissolved_buffer'']"
    and "execute e p fs = (s, r)"
  shows "input_raster p \<notin> set (intermediates s)
    \<and> fs - files s \<subseteq> set (intermediates s)
    \<and> (input_raster p \<in> fs \<longrightarrow> input_raster p \<in> files s)"
proof -
  from assms(1,2) have "input_raster p \<notin> set (appended (body e p))"
    unfolding appended_body by simp
  with tracked_subset_appended [OF assms(3)]
  have b: "input_raster p \<notin> set (intermediates s)" by blast
  note c = deleted_only_tracked [OF assms(3)]
  from b c show ?thesis by blast
qed

text \<open>
  Claim C10 at an input raster that is the file \<open>dead_trees.tif\<close> of the workspace, with
  no forest mask and no engine call or deletion raising: step 4 writes its output to this
  path and appends it, and the cleanup deletes the input raster. The claim says that the
  cleanup never deletes the input raster; the temporary paths of \<open>_tmp\<close>, documented as
  unique, are fixed names.
\<close>

theorem input_raster_deleted_when_named_like_temp:
  "\<not> mask_given own_temp_params
   \<and> input_raster own_temp_params = ''C:/ws/dead_trees.tif''
   \<and> ''C:/ws/dead_trees.tif'' \<in> own_temp_before
   \<and> snd (execute quiet_env own_temp_params own_temp_before) = None
   \<and> ''C:/ws/dead_trees.tif''
        \<in> set (intermediates (fst (execute quiet_env own_temp_params own_temp_before)))
   \<and> ''C:/ws/dead_trees.tif'' \<notin> files (fst (execute quiet_env own_temp_params own_temp_before))"
proof -
  have b: "body quiet_env own_temp_params = body quiet_env no_mask_params"
    by (simp add: own_temp_params_def body_input_raster)
  have v: "validate quiet_env own_temp_params own_temp_before = None"
    by (simp add: validate_def mask_missing_def quiet_env_def no_mask_params_def
        own_temp_params_def own_temp_before_def)
  have m: "\<not> mask_given own_temp_params"
    by (simp add: mask_given_def own_temp_params_def no_mask_params_def)
  have i: "input_raster own_temp_params = ''C:/ws/dead_trees.tif''"
    by (simp add: own_temp_params_def)
  have w: "''C:/ws/dead_trees.tif'' \<in> own_temp_before" by (simp add: own_temp_before_def)
  have d: "Delete_fails quiet_env x = False" for x by (simp add: quiet_env_def)
  from execute_ok [OF v run_ok_quiet [folded b]
      surjective_pairing [of "execute quiet_env own_temp_params own_temp_before"]]
  have "snd (execute quiet_env own_temp_params own_temp_before) = None"
    "''C:/ws/dead_trees.tif''
        \<in> set (intermediates (fst (execute quiet_env own_temp_params own_temp_before)))"
    "''C:/ws/dead_trees.tif'' \<notin> files (fst (execute quiet_env own_temp_params own_temp_before))"
    by (simp_all add: b d appended_body_quiet)
  with m i w show ?thesis by simp
qed

end
